theory Spec2Isabelle
  imports Main
begin

section \<open>Python strings\<close>

text \<open>
  A Python \<open>str\<close> is modelled as a \<open>string\<close>; a \<open>char\<close> stands for one code point
  below 256. The functions below are the \<open>str\<close> methods the sources call.
\<close>

text \<open>\<open>str.isspace\<close> on one character: the code points below 256 Python treats as
  whitespace (TAB, LF, VT, FF, CR, FS, GS, RS, US, space, NEL, NBSP).\<close>

definition is_space :: "char \<Rightarrow> bool" where
  "is_space c = (List.member [9, 10, 11, 12, 13, 28, 29, 30, 31, 32, 133, 160 :: nat] (of_char c))"

text \<open>\<open>s.strip()\<close>\<close>

definition strip :: "string \<Rightarrow> string" where
  "strip s = rev (dropWhile is_space (rev (dropWhile is_space s)))"

text \<open>\<open>s.split()\<close>: the maximal runs of non-whitespace characters; \<open>w\<close> is the word
  being read.\<close>

fun split_from :: "string \<Rightarrow> string \<Rightarrow> string list" where
  "split_from w [] = (if w = [] then [] else [w])"
| "split_from w (c # cs) =
     (if is_space c then (if w = [] then split_from [] cs else w # split_from [] cs)
      else split_from (w @ [c]) cs)"

definition split :: "string \<Rightarrow> string list" where
  "split s = split_from [] s"

text \<open>\<open>s.startswith(p)\<close>\<close>

definition startswith :: "string \<Rightarrow> string \<Rightarrow> bool" where
  "startswith s p = (take (length p) s = p)"

text \<open>\<open>sub in s\<close>\<close>

fun contains :: "string \<Rightarrow> string \<Rightarrow> bool" where
  "contains sub [] = (sub = [])"
| "contains sub (c # cs) = (startswith (c # cs) sub \<or> contains sub cs)"

text \<open>\<open>sep.join(parts)\<close>\<close>

fun join :: "string \<Rightarrow> string list \<Rightarrow> string" where
  "join sep [] = []"
| "join sep [p] = p"
| "join sep (p # q # ps) = p @ sep @ join sep (q # ps)"

section \<open>The parsed document\<close>

text \<open>
  The tree \<open>BeautifulSoup(response.content, 'html.parser')\<close> hands to the extractor.
  A \<open>TextNode\<close> is a \<open>NavigableString\<close>. A \<open>Tag\<close> carries its lower-case tag name, its
  \<open>class\<close> attribute (\<open>None\<close> when absent; otherwise the list of whitespace-separated
  class names, as the parser stores this multi-valued attribute), its \<open>href\<close> attribute
  (\<open>None\<close> when absent, otherwise a string) and its children. These are the only
  attributes the sources read. The \<open>BeautifulSoup\<close> object itself is the root \<open>Tag\<close>.
\<close>

datatype node =
    TextNode string
  | Tag string "string list option" "string option" "node list"

fun tag_name :: "node \<Rightarrow> string option" where
  "tag_name (TextNode s) = None"
| "tag_name (Tag n cl hr cs) = Some n"

fun classes :: "node \<Rightarrow> string list option" where
  "classes (TextNode s) = None"
| "classes (Tag n cl hr cs) = cl"

fun href :: "node \<Rightarrow> string option" where
  "href (TextNode s) = None"
| "href (Tag n cl hr cs) = hr"

text \<open>\<open>tag.descendants\<close>: every node below the tag, in document order, the tag itself
  excluded.\<close>

fun descendants :: "node \<Rightarrow> node list" where
  "descendants (TextNode s) = []"
| "descendants (Tag n cl hr cs) = concat (map (\<lambda>c. c # descendants c) cs)"

text \<open>\<open>tag.get(key, default)\<close> for \<open>key = 'href'\<close>\<close>

definition get_href :: "node \<Rightarrow> string \<Rightarrow> string" where
  "get_href e dflt = (case href e of None \<Rightarrow> dflt | Some h \<Rightarrow> h)"

text \<open>The strings \<open>get_text(strip=True)\<close> collects: each text node below the tag,
  stripped, the ones that strip to nothing left out.\<close>

fun text_of :: "node \<Rightarrow> string list" where
  "text_of (TextNode s) = [s]"
| "text_of (Tag n cl hr cs) = []"

definition stripped_strings :: "node \<Rightarrow> string list" where
  "stripped_strings e =
     filter (\<lambda>s. s \<noteq> []) (map strip (concat (map text_of (descendants e))))"

text \<open>\<open>tag.get_text(strip=True)\<close> and \<open>tag.get_text(separator=' ', strip=True)\<close>\<close>

definition get_text :: "node \<Rightarrow> string" where
  "get_text e = concat (stripped_strings e)"

definition get_text_sep :: "node \<Rightarrow> string" where
  "get_text_sep e = join '' '' (stripped_strings e)"

text \<open>
  How \<open>find\<close> matches \<open>class_=[...]\<close> against a tag: one of the tag's class names is in
  the list, or the whole class string (the names joined by a space) is.
\<close>

definition class_in :: "string list \<Rightarrow> node \<Rightarrow> bool" where
  "class_in hints e =
     (case classes e of None \<Rightarrow> False
      | Some cl \<Rightarrow> list_ex (\<lambda>c. List.member hints c) cl \<or> List.member hints (join '' '' cl))"

definition name_in :: "string list \<Rightarrow> node \<Rightarrow> bool" where
  "name_in tags e = (case tag_name e of None \<Rightarrow> False | Some n \<Rightarrow> List.member tags n)"

text \<open>\<open>tag.find(tags, class_=hints)\<close> and \<open>tag.find(tags)\<close>: the first descendant tag
  that matches, or \<open>None\<close>.\<close>

definition find_class :: "node \<Rightarrow> string list \<Rightarrow> string list \<Rightarrow> node option" where
  "find_class e tags hints = List.find (\<lambda>d. name_in tags d \<and> class_in hints d) (descendants e)"

definition find_tag :: "node \<Rightarrow> string list \<Rightarrow> node option" where
  "find_tag e tags = List.find (name_in tags) (descendants e)"

text \<open>\<open>tag.find('a', href=pred)\<close>: the predicate is applied to the attribute's value,
  \<open>None\<close> when the attribute is absent.\<close>

definition find_href :: "node \<Rightarrow> (string option \<Rightarrow> bool) \<Rightarrow> node option" where
  "find_href e pred = List.find (\<lambda>d. name_in [''a''] d \<and> pred (href d)) (descendants e)"

text \<open>\<open>tag.find_all('a', href=True)\<close> and \<open>tag.find_all('p')\<close>\<close>

definition find_all_links :: "node \<Rightarrow> node list" where
  "find_all_links e = filter (\<lambda>d. name_in [''a''] d \<and> href d \<noteq> None) (descendants e)"

definition find_all_tag :: "node \<Rightarrow> string list \<Rightarrow> node list" where
  "find_all_tag e tags = filter (name_in tags) (descendants e)"

text \<open>\<open>soup.select('[class*="sub"]')\<close>: the attribute selector reads the class names
  joined by a space and matches when \<open>sub\<close> occurs in that string.\<close>

definition class_has :: "string \<Rightarrow> node \<Rightarrow> bool" where
  "class_has sub e =
     (case tag_name e of None \<Rightarrow> False
      | Some n \<Rightarrow> (case classes e of None \<Rightarrow> False | Some cl \<Rightarrow> contains sub (join '' '' cl)))"

definition select :: "node \<Rightarrow> string list \<Rightarrow> node list" where
  "select soup subs = filter (\<lambda>d. list_ex (\<lambda>sub. class_has sub d) subs) (descendants soup)"

section \<open>text_summarizer.py\<close>

text \<open>
  The values \<open>summarize_text\<close> can be handed as \<open>text\<close>: the caller is untyped, so the
  argument need not be a string.
\<close>

datatype pyval = PyNone | PyBool bool | PyInt int | PyStr string | PyList "pyval list"

text \<open>Python truth value of an argument (\<open>not text\<close> is its negation).\<close>

fun truthy :: "pyval \<Rightarrow> bool" where
  "truthy PyNone = False"
| "truthy (PyBool b) = b"
| "truthy (PyInt i) = (i \<noteq> 0)"
| "truthy (PyStr s) = (s \<noteq> [])"
| "truthy (PyList xs) = (xs \<noteq> [])"

fun isinstance_str :: "pyval \<Rightarrow> bool" where
  "isinstance_str (PyStr s) = True"
| "isinstance_str v = False"

text \<open>
  The Hugging Face pipeline is an external collaborator. A call
  \<open>summarizer(text, max_length=.., min_length=.., do_sample=False)\<close> either raises
  (\<open>Inl\<close> the exception's message) or returns a list of dictionaries. The module-level
  variable \<open>summarizer\<close> is \<open>None\<close> when the initialisation failed.
\<close>

type_synonym str_dict = "(string \<times> string) list"

type_synonym pipeline = "string \<Rightarrow> int \<Rightarrow> int \<Rightarrow> string + str_dict list"

text \<open>
  \<open>summarize_text\<close>, returning next to its result the list of calls it made to the
  model. The two warnings it prints are not part of the result and are left out.
  \<open>summary_list[0]['summary_text']\<close> raises \<open>IndexError\<close> or \<open>KeyError\<close> inside the
  \<open>try\<close> block, so both end in the error string.
\<close>

fun str_of :: "pyval \<Rightarrow> string" where
  "str_of (PyStr s) = s"
| "str_of v = []"

definition summarize_run ::
  "pipeline option \<Rightarrow> pyval \<Rightarrow> int \<Rightarrow> int \<Rightarrow> string \<times> (string \<times> int \<times> int) list" where
  "summarize_run summarizer text max_length min_length =
     (case summarizer of
        None \<Rightarrow> (''Summarization pipeline not initialized. Please check installation and logs.'', [])
      | Some model \<Rightarrow>
          if \<not> truthy text \<or> \<not> isinstance_str text \<or> length (strip (str_of text)) = 0
          then (''Input text is empty or invalid.'', [])
          else
            (let s = str_of text; call = (s, max_length, min_length) in
             case model s max_length min_length of
               Inl e \<Rightarrow> (''Error during summarization: '' @ e, [call])
             | Inr [] \<Rightarrow> (''Error during summarization: list index out of range'', [call])
             | Inr (d # ds) \<Rightarrow>
                 (case map_of d ''summary_text'' of
                    None \<Rightarrow>
                      (''Error during summarization: '' @ [CHR 0x27] @ ''summary_text'' @ [CHR 0x27],
                       [call])
                  | Some summary \<Rightarrow> (summary, [call]))))"

definition summarize_text :: "pipeline option \<Rightarrow> pyval \<Rightarrow> int \<Rightarrow> int \<Rightarrow> string" where
  "summarize_text summarizer text max_length min_length =
     fst (summarize_run summarizer text max_length min_length)"

section \<open>futuretools_parser.py\<close>

text \<open>One entry of the list \<open>extract_tools_from_futuretools\<close> returns.\<close>

record tool_record =
  name :: string
  website_link :: string
  futuretools_link :: string
  description :: string
  summarized_description :: string

text \<open>
  \<open>element['href']\<close> raises \<open>KeyError\<close> when the attribute is absent, and none of the
  \<open>except AttributeError\<close> clauses of the extractor catches it.
\<close>

datatype py_error = KeyError string | AttributeError string

definition subscript_href :: "node \<Rightarrow> py_error + string" where
  "subscript_href e = (case href e of None \<Rightarrow> Inl (KeyError ''href'') | Some h \<Rightarrow> Inr h)"

subsection \<open>Tool name\<close>

text \<open>The dictionary \<open>name_element_selectors\<close>, in insertion order: key, tag names and
  the \<open>class_\<close> list when there is one.\<close>

definition name_element_selectors :: "(string \<times> string list \<times> string list option) list" where
  "name_element_selectors =
     [(''primary'', [''h2'', ''h3'', ''h4''], Some [''tool-name'', ''tool-title'', ''card-title'']),
      (''fallback_heading'', [''h2'', ''h3'', ''h4''], None),
      (''fallback_link'', [''a''], Some [''title'', ''name'']),
      (''fallback_first_link_text'', [''a''], None)]"

definition bs_find :: "node \<Rightarrow> string list \<Rightarrow> string list option \<Rightarrow> node option" where
  "bs_find container tags attrs =
     (case attrs of None \<Rightarrow> find_tag container tags
      | Some hints \<Rightarrow> find_class container tags hints)"

text \<open>
  The loop over the selectors; the result is \<open>name_element\<close> after the loop. A tag is
  always truthy, so a found element ends the loop, except under the last key, where an
  element without text is dropped and the loop goes on.
\<close>

fun name_loop ::
  "node \<Rightarrow> (string \<times> string list \<times> string list option) list \<Rightarrow> node option" where
  "name_loop container [] = None"
| "name_loop container ((key, tags, attrs) # rest) =
     (case bs_find container tags attrs of
        None \<Rightarrow> name_loop container rest
      | Some name_element \<Rightarrow>
          if key = ''fallback_first_link_text'' \<and> get_text name_element = []
          then name_loop container rest
          else Some name_element)"

text \<open>The pair \<open>(name, current_tool_has_name)\<close> after the name section.\<close>

definition extract_name :: "node \<Rightarrow> string \<times> bool" where
  "extract_name container =
     (case name_loop container name_element_selectors of
        None \<Rightarrow> (''N/A'', False)
      | Some name_element \<Rightarrow> (get_text name_element, get_text name_element \<noteq> []))"

subsection \<open>Futuretools link\<close>

definition is_tool_path :: "string \<Rightarrow> bool" where
  "is_tool_path h = (startswith h ''/tool/'' \<or> startswith h ''/tools/'')"

text \<open>The \<open>lambda\<close> handed to \<open>find\<close>: \<open>x and (x.startswith(..) or x.startswith(..))\<close>.\<close>

definition tool_href :: "string option \<Rightarrow> bool" where
  "tool_href x = (case x of None \<Rightarrow> False | Some h \<Rightarrow> h \<noteq> [] \<and> is_tool_path h)"

text \<open>The pair \<open>(futuretools_link_internal, current_tool_has_ft_link)\<close> once the link
  has been looked up: the container's own \<open>href\<close> when the container is a link to a
  tool page, else the \<open>href\<close> of the first descendant link to one.\<close>

definition resolve_ft_link :: "node \<Rightarrow> py_error + string \<times> bool" where
  "resolve_ft_link container =
     (if tag_name container = Some ''a'' \<and> is_tool_path (get_href container [])
      then Inr (get_href container [], True)
      else
        (case find_href container tool_href of
           None \<Rightarrow> Inr (''N/A'', False)
         | Some ft_link_element \<Rightarrow>
             (case subscript_href ft_link_element of
                Inl e \<Rightarrow> Inl e
              | Inr h \<Rightarrow> Inr (h, True))))"

text \<open>The same pair after the rewriting step that ends the link section.\<close>

definition extract_ft_link :: "node \<Rightarrow> py_error + string \<times> bool" where
  "extract_ft_link container =
     (case resolve_ft_link container of
        Inl e \<Rightarrow> Inl e
      | Inr (link, has_ft_link) \<Rightarrow>
          Inr (if has_ft_link \<and> startswith link ''/''
               then ''https://www.futuretools.io'' @ link else link,
               has_ft_link))"

subsection \<open>Website link\<close>

definition external_link_classes :: "string list" where
  "external_link_classes =
     [''external-link'', ''website-button'', ''tool-website-link'', ''outbound'',
      ''visit-tool-button'']"

text \<open>The fallback loop over \<open>find_all('a', href=True)\<close>.\<close>

fun fallback_links :: "node list \<Rightarrow> string \<Rightarrow> py_error + string \<times> bool" where
  "fallback_links [] futuretools_link_internal = Inr (''N/A'', False)"
| "fallback_links (link_tag # rest) futuretools_link_internal =
     (case subscript_href link_tag of
        Inl e \<Rightarrow> Inl e
      | Inr h \<Rightarrow>
          if startswith h ''http'' \<and> \<not> contains ''futuretools.io'' h
             \<and> h \<noteq> futuretools_link_internal
          then Inr (h, True)
          else fallback_links rest futuretools_link_internal)"

text \<open>The pair \<open>(website_link, current_tool_has_website_link)\<close> after the section.\<close>

definition extract_website_link :: "node \<Rightarrow> string \<Rightarrow> py_error + string \<times> bool" where
  "extract_website_link container futuretools_link_internal =
     (case find_class container [''a''] external_link_classes of
        Some external_link_element \<Rightarrow>
          (let link = get_href external_link_element [] in
           if link \<noteq> [] \<and> startswith link ''http'' \<and> \<not> contains ''futuretools.io'' link
           then Inr (link, True)
           else Inr (''N/A'', False))
      | None \<Rightarrow> fallback_links (find_all_links container) futuretools_link_internal)"

subsection \<open>Description\<close>

definition description_classes :: "string list" where
  "description_classes =
     [''description'', ''tool-description'', ''card-text'', ''item-description'',
      ''tool-card-description'']"

text \<open>The fallback loop over \<open>find_all('p')\<close>.\<close>

fun first_paragraph :: "node list \<Rightarrow> string \<times> bool" where
  "first_paragraph [] = (''N/A'', False)"
| "first_paragraph (p_tag # rest) =
     (if get_text p_tag \<noteq> [] \<and> length (get_text p_tag) > 20
      then (get_text p_tag, True)
      else first_paragraph rest)"

text \<open>
  The pair \<open>(description, current_tool_has_description)\<close> after the description
  section and the container-text fallback. An element found by class overwrites
  \<open>description\<close> with its text before the text is tested.
\<close>

definition extract_description :: "node \<Rightarrow> string \<Rightarrow> bool \<Rightarrow> string \<Rightarrow> string \<times> bool" where
  "extract_description container nm has_name futuretools_link_internal =
     (case
        (case find_class container [''p'', ''div''] description_classes of
           Some desc_element \<Rightarrow> (get_text desc_element, get_text desc_element \<noteq> [])
         | None \<Rightarrow> first_paragraph (find_all_tag container [''p'']))
      of (d, has_description) \<Rightarrow>
        if \<not> has_description \<and> has_name then
          (let container_text = get_text_sep container;
               remainder =
                 (if nm \<noteq> ''N/A'' \<and> startswith container_text nm
                  then strip (drop (length nm) container_text)
                  else container_text)
           in if length remainder > 30 \<and> remainder \<noteq> futuretools_link_internal
              then (remainder, True)
              else (d, has_description))
        else (d, has_description))"

subsection \<open>Summarization\<close>

text \<open>\<open>summarized_description\<close> after the summarization step; it starts as \<open>"N/A"\<close>.\<close>

definition summarize_description :: "pipeline option \<Rightarrow> string \<Rightarrow> bool \<Rightarrow> string" where
  "summarize_description summarizer d has_description =
     (if has_description \<and> length (split d) > 30
      then summarize_text summarizer (PyStr d) 50 15
      else if has_description then d
      else ''N/A'')"

subsection \<open>One container\<close>

text \<open>The local variables of one loop iteration, after all the sections.\<close>

record container_fields =
  v_name :: string
  current_tool_has_name :: bool
  v_website_link :: string
  current_tool_has_website_link :: bool
  v_futuretools_link_internal :: string
  current_tool_has_ft_link :: bool
  v_description :: string
  current_tool_has_description :: bool
  v_summarized_description :: string

definition extract_fields :: "pipeline option \<Rightarrow> node \<Rightarrow> py_error + container_fields" where
  "extract_fields summarizer container =
     (case extract_name container of (nm, has_name) \<Rightarrow>
       (case extract_ft_link container of
          Inl e \<Rightarrow> Inl e
        | Inr (ft, has_ft) \<Rightarrow>
           (case extract_website_link container ft of
              Inl e \<Rightarrow> Inl e
            | Inr (web, has_web) \<Rightarrow>
               (case extract_description container nm has_name ft of (d, has_d) \<Rightarrow>
                  Inr \<lparr> v_name = nm, current_tool_has_name = has_name,
                        v_website_link = web, current_tool_has_website_link = has_web,
                        v_futuretools_link_internal = ft, current_tool_has_ft_link = has_ft,
                        v_description = d, current_tool_has_description = has_d,
                        v_summarized_description =
                          summarize_description summarizer d has_d \<rparr>))))"

text \<open>The test under which a container is appended to \<open>tools_found\<close>.\<close>

definition accepted :: "container_fields \<Rightarrow> bool" where
  "accepted f =
     (current_tool_has_name f \<and> (current_tool_has_website_link f \<or> current_tool_has_ft_link f))"

definition to_record :: "container_fields \<Rightarrow> tool_record" where
  "to_record f =
     \<lparr> name = v_name f, website_link = v_website_link f,
       futuretools_link = v_futuretools_link_internal f, description = v_description f,
       summarized_description = v_summarized_description f \<rparr>"

subsection \<open>Counters\<close>

record counts =
  processed_tools_count :: nat
  missing_names_count :: nat
  missing_website_links_count :: nat
  missing_ft_links_count :: nat
  missing_descriptions_count :: nat

definition zero_counts :: counts where
  "zero_counts =
     \<lparr> processed_tools_count = 0, missing_names_count = 0, missing_website_links_count = 0,
       missing_ft_links_count = 0, missing_descriptions_count = 0 \<rparr>"

definition bump :: "bool \<Rightarrow> nat \<Rightarrow> nat" where
  "bump b k = (if b then k + 1 else k)"

text \<open>The counter updates of one iteration; \<open>n\<close> is \<open>len(tool_containers)\<close>.\<close>

definition update_counts :: "nat \<Rightarrow> container_fields \<Rightarrow> counts \<Rightarrow> counts" where
  "update_counts n f c =
     (if current_tool_has_name f \<and> (current_tool_has_website_link f \<or> current_tool_has_ft_link f)
      then
        \<lparr> processed_tools_count = processed_tools_count c + 1,
          missing_names_count = bump (\<not> current_tool_has_name f) (missing_names_count c),
          missing_website_links_count =
            bump (\<not> current_tool_has_website_link f) (missing_website_links_count c),
          missing_ft_links_count = bump (\<not> current_tool_has_ft_link f) (missing_ft_links_count c),
          missing_descriptions_count =
            bump (\<not> current_tool_has_description f) (missing_descriptions_count c) \<rparr>
      else if current_tool_has_name f then
        c \<lparr> missing_website_links_count := missing_website_links_count c + 1,
            missing_ft_links_count := missing_ft_links_count c + 1 \<rparr>
      else if n > 0 then
        c \<lparr> missing_names_count := missing_names_count c + 1 \<rparr>
      else c)"

subsection \<open>The extraction\<close>

text \<open>The loop over \<open>tool_containers\<close>, on the state \<open>(tools_found, counters)\<close>.\<close>

fun process_containers ::
  "pipeline option \<Rightarrow> nat \<Rightarrow> node list \<Rightarrow> tool_record list \<times> counts
     \<Rightarrow> py_error + tool_record list \<times> counts" where
  "process_containers summarizer n [] st = Inr st"
| "process_containers summarizer n (container # rest) (tools_found, c) =
     (case extract_fields summarizer container of
        Inl e \<Rightarrow> Inl e
      | Inr f \<Rightarrow>
          process_containers summarizer n rest
            (if accepted f then tools_found @ [to_record f] else tools_found,
             update_counts n f c))"

text \<open>
  The dictionary \<open>fetch_and_parse_website\<close> returns, and the presenter reads: a key
  that is absent is \<open>None\<close>. A dictionary without any key is falsy.
\<close>

record page_data =
  d_text :: "string option"
  d_links :: "str_dict list option"
  d_youtube_videos :: "str_dict list option"
  d_soup :: "node option"

definition empty_dict :: "page_data \<Rightarrow> bool" where
  "empty_dict d =
     (d_text d = None \<and> d_links d = None \<and> d_youtube_videos d = None \<and> d_soup d = None)"

text \<open>
  What the run prints about its outcome: the fetch failed, the dictionary held no tree,
  no element matched a container selector, or the final summary with
  \<open>len(tool_containers)\<close> and the counters.
\<close>

datatype report =
    FetchFailed
  | SoupMissing
  | NoContainers
  | Summary nat counts

text \<open>
  The number of containers the printed counter summary reports ("Processed n potential
  tool containers."); \<open>None\<close> when the run ends before the summary is printed, with one
  of the three messages instead.
\<close>

fun containers_examined :: "report \<Rightarrow> nat option" where
  "containers_examined (Summary n c) = Some n"
| "containers_examined FetchFailed = None"
| "containers_examined SoupMissing = None"
| "containers_examined NoContainers = None"

text \<open>The number printed after "Tools missing a discernible Name".\<close>

definition reported_missing_names :: "nat \<Rightarrow> counts \<Rightarrow> nat" where
  "reported_missing_names n c =
     (if processed_tools_count c = 0 \<and> n > 0 then missing_names_count c
      else missing_names_count c
           + (if missing_names_count c = 0 then n - processed_tools_count c else 0))"

text \<open>Container discovery: the elements whose class string contains "tool-card", and
  when there is none, those whose class string contains "item" or "collection-item".\<close>

definition discover_containers :: "node \<Rightarrow> node list" where
  "discover_containers soup =
     (if select soup [''tool-card''] = [] then select soup [''item'', ''collection-item'']
      else select soup [''tool-card''])"

text \<open>
  \<open>extract_tools_from_futuretools\<close>. The network is outside the model: the function is
  given what \<open>fetch_and_parse_website(url)\<close> returned (\<open>None\<close> on a request error) and
  the module-level \<open>summarizer\<close>. It returns the list \<open>tools_found\<close> and the report, or
  the exception that escaped.
\<close>

definition extract_tools_from_futuretools ::
  "pipeline option \<Rightarrow> page_data option \<Rightarrow> py_error + tool_record list \<times> report" where
  "extract_tools_from_futuretools summarizer parsed_data =
     (case parsed_data of
        None \<Rightarrow> Inr ([], FetchFailed)
      | Some d \<Rightarrow>
          if empty_dict d then Inr ([], FetchFailed)
          else
            (case d_soup d of
               None \<Rightarrow> Inr ([], SoupMissing)
             | Some soup \<Rightarrow>
                 (let tool_containers = discover_containers soup
                  in if tool_containers = [] then Inr ([], NoContainers)
                     else
                       (case process_containers summarizer (length tool_containers)
                               tool_containers ([], zero_counts) of
                          Inl e \<Rightarrow> Inl e
                        | Inr (tools_found, c) \<Rightarrow>
                            Inr (tools_found, Summary (length tool_containers) c)))))"

section \<open>information_organizer.py\<close>

text \<open>\<open>d.get(key, default)\<close> on a dictionary of strings.\<close>

definition dict_get :: "str_dict \<Rightarrow> string \<Rightarrow> string \<Rightarrow> string" where
  "dict_get d k dflt = (case map_of d k of None \<Rightarrow> dflt | Some v \<Rightarrow> v)"

text \<open>\<open>str(n)\<close> for a natural number, as an f-string prints it.\<close>

fun str_nat :: "nat \<Rightarrow> string" where
  "str_nat n =
     (if n < 10 then [char_of (48 + n)] else str_nat (n div 10) @ [char_of (48 + n mod 10)])"

text \<open>
  The argument \<open>data\<close> of the two presenters: \<open>None\<close>, a list of tool dictionaries, or
  the dictionary of a fetched page.
\<close>

datatype data = NoData | ToolList "str_dict list" | PageDict page_data

text \<open>\<open>not data\<close>\<close>

fun falsy :: "data \<Rightarrow> bool" where
  "falsy NoData = True"
| "falsy (ToolList ts) = (ts = [])"
| "falsy (PageDict d) = empty_dict d"

text \<open>\<open>enumerate(xs)\<close>, counting from \<open>i\<close>.\<close>

fun enumerate_from :: "nat \<Rightarrow> 'a list \<Rightarrow> (nat \<times> 'a) list" where
  "enumerate_from i [] = []"
| "enumerate_from i (x # xs) = (i, x) # enumerate_from (i + 1) xs"

subsection \<open>List format\<close>

definition tool_lines :: "nat \<times> str_dict \<Rightarrow> string list" where
  "tool_lines p =
     (case p of (i, tool) \<Rightarrow>
        [''\<newline>Tool '' @ str_nat (i + 1) @ '':'',
         ''  Name: '' @ dict_get tool ''name'' ''N/A'',
         ''  Website: '' @ dict_get tool ''website_link'' ''N/A''])"

definition link_lines :: "nat \<times> str_dict \<Rightarrow> string list" where
  "link_lines p =
     (case p of (i, link) \<Rightarrow>
        [''  '' @ str_nat (i + 1) @ ''. Text: '' @ dict_get link ''text'' ''N/A'',
         ''     Href: '' @ dict_get link ''href'' ''N/A''])"

definition video_lines :: "nat \<times> str_dict \<Rightarrow> string list" where
  "video_lines p =
     (case p of (i, video) \<Rightarrow>
        [''  '' @ str_nat (i + 1) @ ''. Title: '' @ dict_get video ''title'' ''N/A'',
         ''     URL: '' @ dict_get video ''url'' ''N/A''])"

text \<open>\<open>data.get("links", [])\<close> and \<open>data.get("youtube_videos", [])\<close>\<close>

definition get_list :: "str_dict list option \<Rightarrow> str_dict list" where
  "get_list v = (case v of None \<Rightarrow> [] | Some xs \<Rightarrow> xs)"

text \<open>The lines of the \<open>generic_website\<close> branch after the header, for a dictionary
  that is not empty.\<close>

definition website_list_lines :: "page_data \<Rightarrow> string list" where
  "website_list_lines d =
     (let links = get_list (d_links d); youtube_videos = get_list (d_youtube_videos d) in
      (if links \<noteq> []
       then ''\<newline>--- Hyperlinks ---'' # concat (map link_lines (enumerate_from 0 (take 10 links)))
       else [''\<newline>No hyperlinks extracted.''])
      @ (if youtube_videos \<noteq> []
         then ''\<newline>--- YouTube Videos ---''
              # concat (map video_lines (enumerate_from 0 youtube_videos))
         else [''\<newline>No YouTube videos identified.'']))"

text \<open>
  \<open>format_data_as_list\<close>. Iterating a page dictionary yields its keys, and a list has
  no \<open>get\<close>: on data of the wrong shape the call on the element or on the list raises
  \<open>AttributeError\<close>. A page dictionary that is falsy holds no \<open>youtube_videos\<close> key, so
  the video section of the \<open>futuretools\<close> branch never adds a line.
\<close>

definition format_data_as_list :: "data \<Rightarrow> string \<Rightarrow> py_error + string" where
  "format_data_as_list dat source_type =
     (if source_type = ''futuretools'' then
        (if falsy dat then
           Inr (join ''\<newline>''
                  [''--- AI Tools (List Format) ---'',
                   ''No tools data provided or tools list is empty.''])
         else
           (case dat of
              ToolList ts \<Rightarrow>
                Inr (join ''\<newline>''
                       (''--- AI Tools (List Format) ---''
                        # concat (map tool_lines (enumerate_from 0 ts))))
            | other \<Rightarrow> Inl (AttributeError ''get'')))
      else if source_type = ''generic_website'' then
        (if falsy dat then
           Inr (join ''\<newline>''
                  [''--- Website Content (List Format) ---'', ''No website data provided.''])
         else
           (case dat of
              PageDict d \<Rightarrow>
                Inr (join ''\<newline>''
                       (''--- Website Content (List Format) ---'' # website_list_lines d))
            | other \<Rightarrow> Inl (AttributeError ''get'')))
      else Inr ''Invalid source_type provided. Use 'futuretools' or 'generic_website'.'')"

subsection \<open>Paragraph format\<close>

text \<open>\<open>tool.get('summarized_description') or tool.get('description', ...)\<close> and the rest
  of one tool's paragraph.\<close>

definition tool_paragraph :: "str_dict \<Rightarrow> string" where
  "tool_paragraph tool =
     (let nm = dict_get tool ''name'' ''N/A'';
          desc =
            (if dict_get tool ''summarized_description'' [] \<noteq> []
             then dict_get tool ''summarized_description'' []
             else dict_get tool ''description'' ''No description available.'');
          website = dict_get tool ''website_link'' ''N/A'';
          ft_link = dict_get tool ''futuretools_link'' ''N/A''
      in ''Tool: '' @ nm @ ''\<newline>''
         @ ''Description: '' @ desc @ ''\<newline>''
         @ ''Website: '' @ website @ ''\<newline>''
         @ (if ft_link \<noteq> ''N/A'' then ''FutureTools Page: '' @ ft_link @ ''\<newline>'' else []))"

text \<open>The paragraph about \<open>data.get("text", "")\<close>: one of its three branches always
  adds a paragraph.\<close>

definition summary_paragraph :: "pipeline option \<Rightarrow> page_data \<Rightarrow> string" where
  "summary_paragraph text_summarizer_pipeline d =
     (let main_text = (case d_text d of None \<Rightarrow> [] | Some t \<Rightarrow> t) in
      if main_text \<noteq> [] \<and> text_summarizer_pipeline \<noteq> None
      then ''Website Summary:\<newline>''
           @ summarize_text text_summarizer_pipeline (PyStr main_text) 150 40
      else if main_text \<noteq> []
      then ''Website Summary:\<newline>(Summarizer not available or text too short). Full text snippet:\<newline>''
           @ take 500 main_text @ ''...''
      else ''No main text content extracted to summarize.'')"

definition links_paragraph :: "str_dict list \<Rightarrow> string" where
  "links_paragraph links =
     ''Key Hyperlinks Found:\<newline>''
     @ concat (map (\<lambda>link. ''- '' @ dict_get link ''text'' ''N/A''
                            @ '' ('' @ dict_get link ''href'' ''N/A'' @ '')\<newline>'')
                (take 5 links))
     @ (if length links > 5 then ''...and '' @ str_nat (length links - 5) @ '' more links.''
        else [])"

definition yt_paragraph :: "str_dict list \<Rightarrow> string" where
  "yt_paragraph youtube_videos =
     ''YouTube Videos Found:\<newline>''
     @ concat (map (\<lambda>video. ''- '' @ dict_get video ''title'' ''N/A''
                             @ '' ('' @ dict_get video ''url'' ''N/A'' @ '')\<newline>'')
                youtube_videos)"

text \<open>The paragraphs of the \<open>generic_website\<close> branch after the header, for a
  dictionary that is not empty: the link and the video paragraph are appended only
  when the collection is not empty, and nothing is appended otherwise.\<close>

definition website_paragraphs :: "pipeline option \<Rightarrow> page_data \<Rightarrow> string list" where
  "website_paragraphs text_summarizer_pipeline d =
     (let links = get_list (d_links d); youtube_videos = get_list (d_youtube_videos d) in
      [summary_paragraph text_summarizer_pipeline d]
      @ (if links \<noteq> [] then [links_paragraph links] else [])
      @ (if youtube_videos \<noteq> [] then [yt_paragraph youtube_videos] else []))"

definition format_data_as_paragraphs ::
  "pipeline option \<Rightarrow> data \<Rightarrow> string \<Rightarrow> py_error + string" where
  "format_data_as_paragraphs text_summarizer_pipeline dat source_type =
     (if source_type = ''futuretools'' then
        (if falsy dat then
           Inr (join ''\<newline>\<newline>''
                  [''--- AI Tools (Paragraph Format) ---'',
                   ''No tools data provided or tools list is empty.''])
         else
           (case dat of
              ToolList ts \<Rightarrow>
                Inr (join ''\<newline>\<newline>''
                       (''--- AI Tools (Paragraph Format) ---'' # map tool_paragraph ts))
            | other \<Rightarrow> Inl (AttributeError ''get'')))
      else if source_type = ''generic_website'' then
        (if falsy dat then
           Inr (join ''\<newline>\<newline>''
                  [''--- Website Content (Paragraph Format) ---'', ''No website data provided.''])
         else
           (case dat of
              PageDict d \<Rightarrow>
                Inr (join ''\<newline>\<newline>''
                       (''--- Website Content (Paragraph Format) ---''
                        # website_paragraphs text_summarizer_pipeline d))
            | other \<Rightarrow> Inl (AttributeError ''get'')))
      else Inr ''Invalid source_type provided. Use 'futuretools' or 'generic_website'.'')"

section \<open>Example inputs\<close>

text \<open>A pipeline that answers every call with the same one-word summary.\<close>

definition echo_model :: pipeline where
  "echo_model s max_length min_length = Inr [[(''summary_text'', ''short'')]]"

text \<open>The dictionary of a fetched page whose \<open>body\<close> holds the given elements.\<close>

definition page_of :: "node list \<Rightarrow> page_data" where
  "page_of body =
     \<lparr> d_text = Some ''page'', d_links = Some [], d_youtube_videos = Some [],
       d_soup = Some (Tag ''[document]'' None None [Tag ''body'' None None body]) \<rparr>"

text \<open>A card with a heading and a relative link to its detail page.\<close>

definition acme_card :: node where
  "acme_card =
     Tag ''div'' (Some [''tool-card'']) None
       [Tag ''h3'' None None [TextNode ''Acme AI''],
        Tag ''a'' None (Some ''/tool/acme-ai'') [TextNode ''Details'']]"

text \<open>A card whose only link is the relative path \<open>http-guide.html\<close>.\<close>

definition relative_card :: node where
  "relative_card =
     Tag ''div'' (Some [''tool-card'']) None
       [Tag ''h3'' None None [TextNode ''Acme''],
        Tag ''a'' None (Some ''http-guide.html'') [TextNode ''Guide'']]"

text \<open>A card with an empty class-hinted heading and a link that carries the name.\<close>

definition empty_heading_card :: node where
  "empty_heading_card =
     Tag ''div'' (Some [''tool-card'']) None
       [Tag ''h3'' (Some [''tool-name'']) None [],
        Tag ''a'' None (Some ''/tool/acme'') [TextNode ''Acme'']]"

text \<open>A card whose description element is empty.\<close>

definition empty_desc_card :: node where
  "empty_desc_card =
     Tag ''div'' (Some [''tool-card'']) None
       [Tag ''h3'' None None [TextNode ''Acme''],
        Tag ''a'' None (Some ''/tool/acme'') [TextNode ''x''],
        Tag ''p'' (Some [''description'']) None []]"

text \<open>A description of 31 words, and a card that carries it.\<close>

definition long_text :: string where
  "long_text = ''one two three four five six seven eight nine ten eleven twelve thirteen fourteen fifteen sixteen seventeen eighteen nineteen twenty w21 w22 w23 w24 w25 w26 w27 w28 w29 w30 w31''"

definition long_desc_card :: node where
  "long_desc_card =
     Tag ''div'' (Some [''tool-card'']) None
       [Tag ''h3'' None None [TextNode ''Acme''],
        Tag ''a'' None (Some ''/tool/acme'') [TextNode ''x''],
        Tag ''p'' (Some [''description'']) None [TextNode long_text]]"

text \<open>A card with every field, a card with a name and no link, a card without a name.\<close>

definition full_card :: node where
  "full_card =
     Tag ''div'' (Some [''tool-card'']) None
       [Tag ''h3'' None None [TextNode ''Acme''],
        Tag ''a'' None (Some ''/tool/acme'') [TextNode ''Details''],
        Tag ''a'' None (Some ''https://acme.example.com'') [TextNode ''Visit''],
        Tag ''p'' (Some [''description'']) None [TextNode ''Writes code.'']]"

definition linkless_card :: node where
  "linkless_card =
     Tag ''div'' (Some [''tool-card'']) None [Tag ''h3'' None None [TextNode ''Beta'']]"

definition nameless_card :: node where
  "nameless_card =
     Tag ''div'' (Some [''tool-card'']) None [Tag ''p'' None None [TextNode ''nothing'']]"

text \<open>A page body without any element a container selector matches.\<close>

definition plain_body :: "node list" where
  "plain_body = [Tag ''p'' (Some [''intro'']) None [TextNode ''hello'']]"

text \<open>The dictionary of a page with text, no links and no videos.\<close>

definition bare_page :: page_data where
  "bare_page =
     \<lparr> d_text = Some ''Hello world'', d_links = Some [], d_youtube_videos = Some [],
       d_soup = None \<rparr>"

section \<open>The summarizer on invalid input\<close>

lemma strip_blank: "strip ''   '' = []"
  by (simp add: strip_def is_space_def)

text \<open>
  Claim C10. With an initialised pipeline, \<open>summarize_text\<close> on an argument that is
  falsy (empty), not a string, or a string of whitespace only returns the fixed string
  "Input text is empty or invalid." and makes no call to the model; with no pipeline,
  every argument, the empty ones included, gets the message that the pipeline is not
  initialised, again without a call. The function returns a string on every path.
\<close>

theorem summarize_text_invalid_input:
  "(\<not> truthy text \<or> \<not> isinstance_str text \<or> strip (str_of text) = []
      \<longrightarrow> summarize_run (Some model) text max_length min_length
            = (''Input text is empty or invalid.'', [])
          \<and> summarize_text (Some model) text max_length min_length
            = ''Input text is empty or invalid.'')
   \<and> summarize_run None text max_length min_length
       = (''Summarization pipeline not initialized. Please check installation and logs.'', [])
   \<and> summarize_text None text max_length min_length
       = ''Summarization pipeline not initialized. Please check installation and logs.''"
  by (simp add: summarize_run_def summarize_text_def)

theorem summarize_text_invalid_input_witness:
  "summarize_run (Some echo_model) (PyStr ''   '') 150 30
     = (''Input text is empty or invalid.'', [])
   \<and> summarize_run (Some echo_model) (PyInt 5) 150 30
     = (''Input text is empty or invalid.'', [])
   \<and> summarize_run (Some echo_model) PyNone 150 30
     = (''Input text is empty or invalid.'', [])
   \<and> summarize_run (Some echo_model) (PyStr []) 150 30
     = (''Input text is empty or invalid.'', [])
   \<and> summarize_run None (PyStr []) 150 30
     = (''Summarization pipeline not initialized. Please check installation and logs.'', [])"
  using summarize_text_invalid_input [of "PyStr ''   ''" echo_model 150 30]
        summarize_text_invalid_input [of "PyInt 5" echo_model 150 30]
        summarize_text_invalid_input [of "PyNone" echo_model 150 30]
        summarize_text_invalid_input [of "PyStr []" echo_model 150 30]
  by (simp add: strip_blank)

section \<open>No exception escapes the extractor\<close>


lemma is_tool_path_slash: "is_tool_path h \<Longrightarrow> startswith h ''/''"
  unfolding is_tool_path_def startswith_def
  by (cases h) auto

lemma find_href_sat: "find_href c pred = Some el \<Longrightarrow> pred (href el)"
  by (auto simp: find_href_def find_Some_iff)

lemma resolve_ft_link_cases:
  "resolve_ft_link c = Inr (''N/A'', False)
   \<or> (\<exists>h. is_tool_path h \<and> resolve_ft_link c = Inr (h, True))"
  by (auto simp: resolve_ft_link_def subscript_href_def tool_href_def
           split: option.splits dest!: find_href_sat)

lemma extract_ft_link_cases:
  "extract_ft_link c = Inr (''N/A'', False)
   \<or> (\<exists>h. is_tool_path h \<and> resolve_ft_link c = Inr (h, True)
          \<and> extract_ft_link c = Inr (''https://www.futuretools.io'' @ h, True))"
  using resolve_ft_link_cases [of c]
  by (auto simp: extract_ft_link_def is_tool_path_slash)

lemma fallback_links_cases:
  "\<forall>l \<in> set ls. href l \<noteq> None \<Longrightarrow>
   fallback_links ls ft = Inr (''N/A'', False)
   \<or> (\<exists>h. startswith h ''http'' \<and> \<not> contains ''futuretools.io'' h \<and> h \<noteq> ft
          \<and> fallback_links ls ft = Inr (h, True))"
  by (induction ls) (auto simp: subscript_href_def split: option.splits)

lemma extract_website_link_cases:
  "extract_website_link c ft = Inr (''N/A'', False)
   \<or> (\<exists>h. startswith h ''http'' \<and> \<not> contains ''futuretools.io'' h
          \<and> extract_website_link c ft = Inr (h, True))"
proof (cases "find_class c [''a''] external_link_classes")
  case None
  have "\<forall>l \<in> set (find_all_links c). href l \<noteq> None"
    by (simp add: find_all_links_def)
  from fallback_links_cases [OF this, of ft] None show ?thesis
    by (auto simp: extract_website_link_def)
next
  case (Some e)
  then show ?thesis by (auto simp: extract_website_link_def Let_def)
qed

lemma extract_name_has: "extract_name c = (nm, True) \<Longrightarrow> nm \<noteq> []"
  by (auto simp: extract_name_def split: option.splits)

lemma extract_fields_props:
  "\<exists>f. extract_fields smz c = Inr f
     \<and> (current_tool_has_name f \<longrightarrow> v_name f \<noteq> [])
     \<and> (if current_tool_has_website_link f
         then startswith (v_website_link f) ''http''
              \<and> \<not> contains ''futuretools.io'' (v_website_link f)
         else v_website_link f = ''N/A'')
     \<and> (if current_tool_has_ft_link f
         then \<exists>h. is_tool_path h \<and> resolve_ft_link c = Inr (h, True)
                  \<and> v_futuretools_link_internal f = ''https://www.futuretools.io'' @ h
         else v_futuretools_link_internal f = ''N/A'')
     \<and> v_summarized_description f
         = summarize_description smz (v_description f) (current_tool_has_description f)"
proof -
  obtain nm hn where n: "extract_name c = (nm, hn)" by (cases "extract_name c")
  have "\<exists>ft hf. extract_ft_link c = Inr (ft, hf)
          \<and> (if hf then \<exists>h. is_tool_path h \<and> resolve_ft_link c = Inr (h, True)
                  \<and> ft = ''https://www.futuretools.io'' @ h else ft = ''N/A'')"
    using extract_ft_link_cases [of c] by (elim disjE exE) force+
  then obtain ft hf where
    f: "extract_ft_link c = Inr (ft, hf)"
    and fp: "if hf then \<exists>h. is_tool_path h \<and> resolve_ft_link c = Inr (h, True)
                  \<and> ft = ''https://www.futuretools.io'' @ h else ft = ''N/A''"
    by blast
  have "\<exists>w hw. extract_website_link c ft = Inr (w, hw)
          \<and> (if hw then startswith w ''http'' \<and> \<not> contains ''futuretools.io'' w
              else w = ''N/A'')"
    using extract_website_link_cases [of c ft] by (elim disjE exE) force+
  then obtain w hw where
    w: "extract_website_link c ft = Inr (w, hw)"
    and wp: "if hw then startswith w ''http'' \<and> \<not> contains ''futuretools.io'' w else w = ''N/A''"
    by blast
  obtain d hd where d: "extract_description c nm hn ft = (d, hd)"
    by (cases "extract_description c nm hn ft")
  have np: "hn \<longrightarrow> nm \<noteq> []"
  proof
    assume hn
    with n have "extract_name c = (nm, True)" by simp
    then show "nm \<noteq> []" by (rule extract_name_has)
  qed
  show ?thesis
    using n f w d np fp wp by (cases hf; cases hw) (auto simp: extract_fields_def)
qed

lemma extract_fields_Inr: "extract_fields smz c = Inr (projr (extract_fields smz c))"
  using extract_fields_props [of smz c] by auto

lemma process_containers_eq:
  "process_containers smz n cs (tools, cnt) =
     Inr (tools @ map to_record (filter accepted (map (\<lambda>c. projr (extract_fields smz c)) cs)),
          fold (update_counts n) (map (\<lambda>c. projr (extract_fields smz c)) cs) cnt)"
proof (induction cs arbitrary: tools cnt)
  case Nil
  show ?case by simp
next
  case (Cons c cs)
  show ?case
    by (subst process_containers.simps, subst extract_fields_Inr) (simp add: Cons.IH)
qed


text \<open>The result of a run on a page with a tree, in closed form.\<close>

lemma extract_on_soup:
  "d_soup d = Some soup \<Longrightarrow>
   extract_tools_from_futuretools smz (Some d) =
     (if discover_containers soup = [] then Inr ([], NoContainers)
      else Inr (map to_record
                  (filter accepted
                     (map (\<lambda>c. projr (extract_fields smz c)) (discover_containers soup))),
                Summary (length (discover_containers soup))
                  (fold (update_counts (length (discover_containers soup)))
                     (map (\<lambda>c. projr (extract_fields smz c)) (discover_containers soup))
                     zero_counts)))"
  by (simp add: extract_tools_from_futuretools_def empty_dict_def Let_def process_containers_eq)

lemma extract_total:
  "\<exists>tools rep. extract_tools_from_futuretools smz pd = Inr (tools, rep)"
proof (cases pd)
  case None
  then show ?thesis by (simp add: extract_tools_from_futuretools_def)
next
  case (Some d)
  show ?thesis
  proof (cases "d_soup d")
    case None
    with Some show ?thesis by (simp add: extract_tools_from_futuretools_def)
  next
    case (Some soup)
    with \<open>pd = Some d\<close> show ?thesis by (simp add: extract_on_soup)
  qed
qed

lemma extract_shape:
  "extract_tools_from_futuretools smz pd = Inr (tools, rep) \<Longrightarrow>
   \<exists>cs. tools = map to_record (filter accepted (map (\<lambda>c. projr (extract_fields smz c)) cs))"
proof (cases pd)
  case None
  assume "extract_tools_from_futuretools smz pd = Inr (tools, rep)"
  with None have "tools = []" by (simp add: extract_tools_from_futuretools_def)
  then show ?thesis by (intro exI [of _ "[]"]) simp
next
  case (Some d)
  assume r: "extract_tools_from_futuretools smz pd = Inr (tools, rep)"
  show ?thesis
  proof (cases "d_soup d")
    case None
    with Some r have "tools = []"
      by (simp add: extract_tools_from_futuretools_def split: if_splits)
    then show ?thesis by (intro exI [of _ "[]"]) simp
  next
    case (Some soup)
    with \<open>pd = Some d\<close> r show ?thesis
      by (cases "discover_containers soup = []")
         (auto simp: extract_on_soup intro: exI [of _ "[]"])
  qed
qed

lemma extract_records:
  assumes "extract_tools_from_futuretools smz pd = Inr (tools, rep)" and "t \<in> set tools"
  shows "\<exists>c f. extract_fields smz c = Inr f \<and> accepted f \<and> t = to_record f"
proof -
  from extract_shape [OF assms(1)] obtain cs where
    "tools = map to_record (filter accepted (map (\<lambda>c. projr (extract_fields smz c)) cs))"
    by blast
  with assms(2) obtain c where
    "accepted (projr (extract_fields smz c))" "t = to_record (projr (extract_fields smz c))"
    by auto
  with extract_fields_Inr [of smz c] show ?thesis by blast
qed

lemma http_not_NA: "startswith w ''http'' \<Longrightarrow> w \<noteq> ''N/A''"
  by (auto simp: startswith_def)

section \<open>Example runs\<close>

lemma acme_run:
  "extract_tools_from_futuretools None (Some (page_of [acme_card])) =
     Inr ([\<lparr> name = ''Acme AI'', website_link = ''N/A'',
             futuretools_link = ''https://www.futuretools.io/tool/acme-ai'',
             description = ''N/A'', summarized_description = ''N/A'' \<rparr>],
          Summary 1
            \<lparr> processed_tools_count = 1, missing_names_count = 0,
              missing_website_links_count = 1, missing_ft_links_count = 0,
              missing_descriptions_count = 1 \<rparr>)"
  by code_simp

lemma acme_resolve: "resolve_ft_link acme_card = Inr (''/tool/acme-ai'', True)"
  by code_simp

lemma plain_no_match:
  "\<forall>e \<in> set (descendants (Tag ''[document]'' None None [Tag ''body'' None None plain_body])).
     \<not> class_has ''tool-card'' e \<and> \<not> class_has ''item'' e \<and> \<not> class_has ''collection-item'' e"
  by code_simp

section \<open>The records of the output\<close>

text \<open>
  Claim C1. A run returns a list, and every record of it has a non-empty \<open>name\<close> and a
  \<open>website_link\<close> or a \<open>futuretools_link\<close> that is not the sentinel "N/A".
\<close>

theorem extracted_records_invariant:
  "\<exists>tools rep. extract_tools_from_futuretools smz pd = Inr (tools, rep)
     \<and> (\<forall>t \<in> set tools. name t \<noteq> []
            \<and> (website_link t \<noteq> ''N/A'' \<or> futuretools_link t \<noteq> ''N/A''))"
proof -
  obtain tools rep where r: "extract_tools_from_futuretools smz pd = Inr (tools, rep)"
    using extract_total by blast
  have "name t \<noteq> [] \<and> (website_link t \<noteq> ''N/A'' \<or> futuretools_link t \<noteq> ''N/A'')"
    if "t \<in> set tools" for t
  proof -
    from extract_records [OF r that] obtain c f where
      f: "extract_fields smz c = Inr f" and a: "accepted f" and t: "t = to_record f"
      by blast
    from extract_fields_props [of smz c] f have
      p1: "current_tool_has_name f \<longrightarrow> v_name f \<noteq> []"
      and p2: "current_tool_has_website_link f \<longrightarrow> startswith (v_website_link f) ''http''"
      and p3: "current_tool_has_ft_link f \<longrightarrow>
                 (\<exists>h. v_futuretools_link_internal f = ''https://www.futuretools.io'' @ h)"
      by (auto split: if_splits)
    from a p1 p2 p3 t show ?thesis
      by (auto simp: accepted_def to_record_def dest: http_not_NA)
  qed
  with r show ?thesis by blast
qed

theorem extracted_records_invariant_witness:
  "\<exists>t tools rep.
     extract_tools_from_futuretools None (Some (page_of [acme_card])) = Inr (tools, rep)
     \<and> t \<in> set tools \<and> name t = ''Acme AI'' \<and> name t \<noteq> []
     \<and> futuretools_link t \<noteq> ''N/A''"
  using extracted_records_invariant [of None "Some (page_of [acme_card])"]
  by (auto simp: acme_run)

section \<open>Absent data\<close>

text \<open>
  Claim C2, as the code has it. No exception escapes
  \<open>extract_tools_from_futuretools\<close>: every run returns a list and a report. When the
  fetch returned nothing, the list is empty and the report is the message that the
  fetch failed; when the page has a tree in which no element's class string contains
  "tool-card", "item" or "collection-item", the list is empty and the report is the
  message that no container was found. Neither early return prints the counter
  summary, and the summary, when a run does print it, never reports zero containers.
\<close>

theorem extract_never_raises:
  "(\<exists>tools rep. extract_tools_from_futuretools smz pd = Inr (tools, rep))
   \<and> extract_tools_from_futuretools smz None = Inr ([], FetchFailed)
   \<and> containers_examined FetchFailed = None
   \<and> (d_soup d = Some soup
        \<and> (\<forall>e \<in> set (descendants soup).
              \<not> class_has ''tool-card'' e \<and> \<not> class_has ''item'' e
              \<and> \<not> class_has ''collection-item'' e)
      \<longrightarrow> discover_containers soup = []
          \<and> extract_tools_from_futuretools smz (Some d) = Inr ([], NoContainers))
   \<and> containers_examined NoContainers = None
   \<and> (extract_tools_from_futuretools smz pd = Inr (tools, rep)
      \<longrightarrow> containers_examined rep \<noteq> Some 0)"
proof -
  have none: "discover_containers soup = []"
    if "\<forall>e \<in> set (descendants soup).
              \<not> class_has ''tool-card'' e \<and> \<not> class_has ''item'' e
              \<and> \<not> class_has ''collection-item'' e"
    using that by (auto simp: discover_containers_def select_def filter_empty_conv)
  have a: "\<exists>tools rep. extract_tools_from_futuretools smz pd = Inr (tools, rep)"
    by (rule extract_total)
  have b: "extract_tools_from_futuretools smz None = Inr ([], FetchFailed)"
    by (simp add: extract_tools_from_futuretools_def)
  have c: "d_soup d = Some soup
        \<and> (\<forall>e \<in> set (descendants soup).
              \<not> class_has ''tool-card'' e \<and> \<not> class_has ''item'' e
              \<and> \<not> class_has ''collection-item'' e)
      \<longrightarrow> discover_containers soup = []
          \<and> extract_tools_from_futuretools smz (Some d) = Inr ([], NoContainers)"
    using none by (simp add: extract_on_soup)
  have e: "containers_examined rep \<noteq> Some 0"
    if r: "extract_tools_from_futuretools smz pd = Inr (tools, rep)"
  proof (cases pd)
    case None
    with r show ?thesis by (auto simp: extract_tools_from_futuretools_def)
  next
    case (Some d')
    show ?thesis
    proof (cases "d_soup d'")
      case None
      with Some r show ?thesis
        by (auto simp: extract_tools_from_futuretools_def split: if_splits)
    next
      case (Some soup')
      with \<open>pd = Some d'\<close> r show ?thesis
        by (cases "discover_containers soup' = []") (auto simp: extract_on_soup)
    qed
  qed
  from a b c e show ?thesis by simp
qed

theorem extract_never_raises_witness:
  "extract_tools_from_futuretools None (Some (page_of plain_body)) = Inr ([], NoContainers)
   \<and> extract_tools_from_futuretools None None = Inr ([], FetchFailed)
   \<and> containers_examined NoContainers = None
   \<and> containers_examined
        (Summary 1
           \<lparr> processed_tools_count = 1, missing_names_count = 0,
             missing_website_links_count = 1, missing_ft_links_count = 0,
             missing_descriptions_count = 1 \<rparr>) \<noteq> Some 0"
  using extract_never_raises [of None None "page_of plain_body"
          "Tag ''[document]'' None None [Tag ''body'' None None plain_body]"]
        extract_never_raises [of None "Some (page_of [acme_card])" "page_of plain_body"
          "Tag ''[document]'' None None [Tag ''body'' None None plain_body]"]
        plain_no_match
  by (simp add: page_of_def acme_run [unfolded page_of_def])

text \<open>
  On a page without a container, and on a failed fetch, the run returns the empty
  list with a message; no counter summary is printed, so no tally reports zero
  containers examined.
\<close>

theorem early_return_prints_no_tally:
  "extract_tools_from_futuretools None (Some (page_of plain_body)) = Inr ([], NoContainers)
   \<and> containers_examined NoContainers = None
   \<and> extract_tools_from_futuretools None None = Inr ([], FetchFailed)
   \<and> containers_examined FetchFailed = None"
  by code_simp

section \<open>The futuretools link\<close>

text \<open>
  Claim C5. When the link lookup of a container resolves to the path \<open>h\<close> (the
  container's own \<open>href\<close> or that of its first descendant link to a tool page), \<open>h\<close>
  starts with "/tool/" or "/tools/", and the \<open>futuretools_link\<close> stored for the
  container is "https://www.futuretools.io" followed by \<open>h\<close>. In the list a run
  returns, every \<open>futuretools_link\<close> is the sentinel or such a rewritten path.
\<close>

theorem futuretools_link_absolute:
  "(resolve_ft_link c = Inr (h, True) \<longrightarrow>
      is_tool_path h
      \<and> extract_ft_link c = Inr (''https://www.futuretools.io'' @ h, True)
      \<and> (\<exists>f. extract_fields smz c = Inr f \<and> current_tool_has_ft_link f
             \<and> futuretools_link (to_record f) = ''https://www.futuretools.io'' @ h))
   \<and> (\<exists>tools rep. extract_tools_from_futuretools smz pd = Inr (tools, rep)
        \<and> (\<forall>t \<in> set tools.
              futuretools_link t = ''N/A''
              \<or> (\<exists>p. is_tool_path p
                     \<and> futuretools_link t = ''https://www.futuretools.io'' @ p)))"
proof
  show "resolve_ft_link c = Inr (h, True) \<longrightarrow>
      is_tool_path h
      \<and> extract_ft_link c = Inr (''https://www.futuretools.io'' @ h, True)
      \<and> (\<exists>f. extract_fields smz c = Inr f \<and> current_tool_has_ft_link f
             \<and> futuretools_link (to_record f) = ''https://www.futuretools.io'' @ h)"
  proof
    assume r: "resolve_ft_link c = Inr (h, True)"
    with extract_ft_link_cases [of c] have
      e: "is_tool_path h \<and> extract_ft_link c = Inr (''https://www.futuretools.io'' @ h, True)"
      by (auto simp: extract_ft_link_def)
    obtain f where f: "extract_fields smz c = Inr f"
      using extract_fields_props [of smz c] by blast
    with e have "current_tool_has_ft_link f
       \<and> v_futuretools_link_internal f = ''https://www.futuretools.io'' @ h"
      by (auto simp: extract_fields_def split: prod.splits sum.splits)
    with e f show "is_tool_path h
      \<and> extract_ft_link c = Inr (''https://www.futuretools.io'' @ h, True)
      \<and> (\<exists>f. extract_fields smz c = Inr f \<and> current_tool_has_ft_link f
             \<and> futuretools_link (to_record f) = ''https://www.futuretools.io'' @ h)"
      by (auto simp: to_record_def)
  qed
next
  obtain tools rep where r: "extract_tools_from_futuretools smz pd = Inr (tools, rep)"
    using extract_total by blast
  have "futuretools_link t = ''N/A''
          \<or> (\<exists>p. is_tool_path p \<and> futuretools_link t = ''https://www.futuretools.io'' @ p)"
    if "t \<in> set tools" for t
  proof -
    from extract_records [OF r that] obtain c f where
      f: "extract_fields smz c = Inr f" and t: "t = to_record f"
      by blast
    from extract_fields_props [of smz c] f have
      "if current_tool_has_ft_link f
         then \<exists>h. is_tool_path h
                  \<and> v_futuretools_link_internal f = ''https://www.futuretools.io'' @ h
         else v_futuretools_link_internal f = ''N/A''"
      by (auto split: if_splits)
    with t show ?thesis by (auto simp: to_record_def split: if_splits)
  qed
  with r show "\<exists>tools rep. extract_tools_from_futuretools smz pd = Inr (tools, rep)
        \<and> (\<forall>t \<in> set tools.
              futuretools_link t = ''N/A''
              \<or> (\<exists>p. is_tool_path p
                     \<and> futuretools_link t = ''https://www.futuretools.io'' @ p))"
    by blast
qed

theorem futuretools_link_absolute_witness:
  "resolve_ft_link acme_card = Inr (''/tool/acme-ai'', True)
   \<and> extract_ft_link acme_card = Inr (''https://www.futuretools.io/tool/acme-ai'', True)
   \<and> (\<exists>f. extract_fields None acme_card = Inr f
          \<and> futuretools_link (to_record f) = ''https://www.futuretools.io/tool/acme-ai'')"
  using futuretools_link_absolute [of acme_card "''/tool/acme-ai''" None None] acme_resolve
  by auto

section \<open>The website link\<close>

text \<open>
  What the website section guarantees for every record of the output: the
  \<open>website_link\<close> is the sentinel, or it starts with the four characters "http" and
  does not contain "futuretools.io". A class-marked link whose \<open>href\<close> fails the test
  leaves the sentinel; the fallback loop is not run for that container.
\<close>

lemma website_link_checked:
  "\<exists>tools rep. extract_tools_from_futuretools smz pd = Inr (tools, rep)
     \<and> (\<forall>t \<in> set tools.
           website_link t = ''N/A''
           \<or> startswith (website_link t) ''http''
              \<and> \<not> contains ''futuretools.io'' (website_link t))"
proof -
  obtain tools rep where r: "extract_tools_from_futuretools smz pd = Inr (tools, rep)"
    using extract_total by blast
  have "website_link t = ''N/A''
          \<or> startswith (website_link t) ''http''
             \<and> \<not> contains ''futuretools.io'' (website_link t)"
    if "t \<in> set tools" for t
  proof -
    from extract_records [OF r that] obtain c f where
      f: "extract_fields smz c = Inr f" and t: "t = to_record f"
      by blast
    from extract_fields_props [of smz c] f have
      "if current_tool_has_website_link f
         then startswith (v_website_link f) ''http''
              \<and> \<not> contains ''futuretools.io'' (v_website_link f)
         else v_website_link f = ''N/A''"
      by (auto split: if_splits)
    with t show ?thesis by (auto simp: to_record_def split: if_splits)
  qed
  with r show ?thesis by blast
qed

lemma marked_link_not_substituted:
  "find_class c [''a''] external_link_classes = Some e \<Longrightarrow>
   extract_website_link c ft =
     (if get_href e [] \<noteq> [] \<and> startswith (get_href e []) ''http''
         \<and> \<not> contains ''futuretools.io'' (get_href e [])
      then Inr (get_href e [], True) else Inr (''N/A'', False))"
  by (simp add: extract_website_link_def Let_def)

text \<open>
  Claim C3. The claim asks that a \<open>website_link\<close> is assigned only from an absolute
  http(s) URL. The test of the code is the prefix "http": on a card whose only link is
  the relative path \<open>http-guide.html\<close>, which starts with neither "http://" nor
  "https://", the run accepts the card on the strength of that link and stores the
  path as \<open>website_link\<close>.
\<close>

theorem relative_href_stored_as_website_link:
  "extract_tools_from_futuretools None (Some (page_of [relative_card])) =
     Inr ([\<lparr> name = ''Acme'', website_link = ''http-guide.html'',
             futuretools_link = ''N/A'', description = ''N/A'',
             summarized_description = ''N/A'' \<rparr>],
          Summary 1
            \<lparr> processed_tools_count = 1, missing_names_count = 0,
              missing_website_links_count = 0, missing_ft_links_count = 1,
              missing_descriptions_count = 1 \<rparr>)
   \<and> \<not> startswith ''http-guide.html'' ''http://''
   \<and> \<not> startswith ''http-guide.html'' ''https://''"
  by code_simp

section \<open>The name chain\<close>

text \<open>
  Claim C4, as the code has it. The chain stops at the first stage that finds an
  element. An element found by one of the first three stages (class-hinted heading,
  any heading, class-hinted link) ends the chain whatever its text: the name is its
  trimmed text, and it is resolved exactly when that text is not empty. Only the last
  stage (first link) drops an element whose trimmed text is empty, and since no stage
  follows, the name is then unresolved. When no stage finds an element the name is
  unresolved.
\<close>

theorem name_chain_stops_at_first_element:
  "(bs_find c [''h2'', ''h3'', ''h4''] (Some [''tool-name'', ''tool-title'', ''card-title'']) = Some e
      \<longrightarrow> extract_name c = (get_text e, get_text e \<noteq> []))
   \<and> (bs_find c [''h2'', ''h3'', ''h4''] (Some [''tool-name'', ''tool-title'', ''card-title'']) = None
        \<and> bs_find c [''h2'', ''h3'', ''h4''] None = Some e
      \<longrightarrow> extract_name c = (get_text e, get_text e \<noteq> []))
   \<and> (bs_find c [''h2'', ''h3'', ''h4''] None = None
        \<and> bs_find c [''h2'', ''h3'', ''h4''] (Some [''tool-name'', ''tool-title'', ''card-title'']) = None
        \<and> bs_find c [''a''] (Some [''title'', ''name'']) = Some e
      \<longrightarrow> extract_name c = (get_text e, get_text e \<noteq> []))
   \<and> (bs_find c [''h2'', ''h3'', ''h4''] None = None
        \<and> bs_find c [''h2'', ''h3'', ''h4''] (Some [''tool-name'', ''tool-title'', ''card-title'']) = None
        \<and> bs_find c [''a''] (Some [''title'', ''name'']) = None
        \<and> bs_find c [''a''] None = Some e
      \<longrightarrow> extract_name c = (if get_text e = [] then (''N/A'', False) else (get_text e, True)))
   \<and> (bs_find c [''h2'', ''h3'', ''h4''] None = None
        \<and> bs_find c [''h2'', ''h3'', ''h4''] (Some [''tool-name'', ''tool-title'', ''card-title'']) = None
        \<and> bs_find c [''a''] (Some [''title'', ''name'']) = None
        \<and> bs_find c [''a''] None = None
      \<longrightarrow> extract_name c = (''N/A'', False))"
  by (simp add: extract_name_def name_element_selectors_def)

lemma empty_heading_stage1:
  "bs_find empty_heading_card [''h2'', ''h3'', ''h4'']
     (Some [''tool-name'', ''tool-title'', ''card-title''])
   = Some (Tag ''h3'' (Some [''tool-name'']) None [])"
  by code_simp

lemma acme_stage1:
  "bs_find acme_card [''h2'', ''h3'', ''h4''] (Some [''tool-name'', ''tool-title'', ''card-title''])
   = None"
  by code_simp

lemma acme_stage2:
  "bs_find acme_card [''h2'', ''h3'', ''h4''] None = Some (Tag ''h3'' None None [TextNode ''Acme AI''])"
  by code_simp

lemma acme_heading_text: "get_text (Tag ''h3'' None None [TextNode ''Acme AI'']) = ''Acme AI''"
  by code_simp

lemma empty_heading_text: "get_text (Tag ''h3'' (Some [''tool-name'']) None []) = []"
  by code_simp

lemma titled_link_stages:
  "bs_find (Tag ''div'' None None [Tag ''a'' (Some [''title'']) None [TextNode ''Gamma'']])
     [''h2'', ''h3'', ''h4''] None = None
   \<and> bs_find (Tag ''div'' None None [Tag ''a'' (Some [''title'']) None [TextNode ''Gamma'']])
     [''h2'', ''h3'', ''h4''] (Some [''tool-name'', ''tool-title'', ''card-title'']) = None
   \<and> bs_find (Tag ''div'' None None [Tag ''a'' (Some [''title'']) None [TextNode ''Gamma'']])
     [''a''] (Some [''title'', ''name''])
     = Some (Tag ''a'' (Some [''title'']) None [TextNode ''Gamma''])
   \<and> get_text (Tag ''a'' (Some [''title'']) None [TextNode ''Gamma'']) = ''Gamma''"
  by code_simp

lemma blank_link_stages:
  "bs_find (Tag ''div'' None None [Tag ''a'' None (Some ''/x'') [TextNode ''  '']])
     [''h2'', ''h3'', ''h4''] None = None
   \<and> bs_find (Tag ''div'' None None [Tag ''a'' None (Some ''/x'') [TextNode ''  '']])
     [''h2'', ''h3'', ''h4''] (Some [''tool-name'', ''tool-title'', ''card-title'']) = None
   \<and> bs_find (Tag ''div'' None None [Tag ''a'' None (Some ''/x'') [TextNode ''  '']])
     [''a''] (Some [''title'', ''name'']) = None
   \<and> bs_find (Tag ''div'' None None [Tag ''a'' None (Some ''/x'') [TextNode ''  '']])
     [''a''] None = Some (Tag ''a'' None (Some ''/x'') [TextNode ''  ''])
   \<and> get_text (Tag ''a'' None (Some ''/x'') [TextNode ''  '']) = []"
  by code_simp

lemma nameless_stages:
  "bs_find nameless_card [''h2'', ''h3'', ''h4''] None = None
   \<and> bs_find nameless_card [''h2'', ''h3'', ''h4'']
       (Some [''tool-name'', ''tool-title'', ''card-title'']) = None
   \<and> bs_find nameless_card [''a''] (Some [''title'', ''name'']) = None
   \<and> bs_find nameless_card [''a''] None = None"
  by code_simp

theorem name_chain_stops_at_first_element_witness:
  "extract_name empty_heading_card = ([], False)
   \<and> extract_name acme_card = (''Acme AI'', True)
   \<and> extract_name (Tag ''div'' None None [Tag ''a'' (Some [''title'']) None [TextNode ''Gamma'']])
       = (''Gamma'', True)
   \<and> extract_name (Tag ''div'' None None [Tag ''a'' None (Some ''/x'') [TextNode ''  '']])
       = (''N/A'', False)
   \<and> extract_name nameless_card = (''N/A'', False)"
  using name_chain_stops_at_first_element
          [of empty_heading_card "Tag ''h3'' (Some [''tool-name'']) None []"]
        name_chain_stops_at_first_element
          [of acme_card "Tag ''h3'' None None [TextNode ''Acme AI'']"]
        name_chain_stops_at_first_element
          [of "Tag ''div'' None None [Tag ''a'' (Some [''title'']) None [TextNode ''Gamma'']]"
              "Tag ''a'' (Some [''title'']) None [TextNode ''Gamma'']"]
        name_chain_stops_at_first_element
          [of "Tag ''div'' None None [Tag ''a'' None (Some ''/x'') [TextNode ''  '']]"
              "Tag ''a'' None (Some ''/x'') [TextNode ''  '']"]
        name_chain_stops_at_first_element [of nameless_card]
  by (simp add: empty_heading_stage1 acme_stage1 acme_stage2 acme_heading_text
        empty_heading_text titled_link_stages blank_link_stages nameless_stages)

text \<open>
  On the card with an empty class-hinted heading, the first stage finds the heading,
  whose trimmed text is empty; the last stage would find a link with the text "Acme";
  the chain has ended at the heading, the name is unresolved and the card is dropped.
\<close>

theorem empty_heading_ends_chain:
  "bs_find empty_heading_card [''h2'', ''h3'', ''h4'']
     (Some [''tool-name'', ''tool-title'', ''card-title''])
     = Some (Tag ''h3'' (Some [''tool-name'']) None [])
   \<and> get_text (Tag ''h3'' (Some [''tool-name'']) None []) = []
   \<and> bs_find empty_heading_card [''a''] None
     = Some (Tag ''a'' None (Some ''/tool/acme'') [TextNode ''Acme''])
   \<and> get_text (Tag ''a'' None (Some ''/tool/acme'') [TextNode ''Acme'']) = ''Acme''
   \<and> extract_name empty_heading_card = ([], False)
   \<and> extract_tools_from_futuretools None (Some (page_of [empty_heading_card]))
     = Inr ([], Summary 1
              \<lparr> processed_tools_count = 0, missing_names_count = 1,
                missing_website_links_count = 0, missing_ft_links_count = 0,
                missing_descriptions_count = 0 \<rparr>)"
  by code_simp

section \<open>The summarization step\<close>

text \<open>The rule of the summarization step, for the fields of any container.\<close>

lemma summarized_description_rule:
  "\<exists>f. extract_fields smz c = Inr f
     \<and> v_summarized_description f =
         (if current_tool_has_description f \<and> 30 < length (split (v_description f))
          then summarize_text smz (PyStr (v_description f)) 50 15
          else if current_tool_has_description f then v_description f
          else ''N/A'')"
  using extract_fields_props [of smz c] by (auto simp: summarize_description_def)

text \<open>
  Claim C6. The claim asks that, when no summary is made, \<open>summarized_description\<close>
  equals \<open>description\<close>, both being "N/A" when no description was resolved. On a card
  whose class-marked description element is empty, the code has already overwritten
  \<open>description\<close> with the element's empty text when it finds the text empty; nothing
  resets it, and the record carries the empty string as \<open>description\<close> next to "N/A"
  as \<open>summarized_description\<close>.
\<close>

theorem empty_description_element_breaks_equality:
  "extract_tools_from_futuretools None (Some (page_of [empty_desc_card])) =
     Inr ([\<lparr> name = ''Acme'', website_link = ''N/A'',
             futuretools_link = ''https://www.futuretools.io/tool/acme'',
             description = [], summarized_description = ''N/A'' \<rparr>],
          Summary 1
            \<lparr> processed_tools_count = 1, missing_names_count = 0,
              missing_website_links_count = 1, missing_ft_links_count = 0,
              missing_descriptions_count = 1 \<rparr>)"
  by code_simp

section \<open>The summarizer when it is disabled\<close>

text \<open>
  What the run does with no pipeline: no run fails, and for every
  container the \<open>summarized_description\<close> is: the fixed message that the pipeline is
  not initialised when a description was resolved and has more than 30 words; the
  description unchanged when one was resolved with at most 30 words; "N/A" when none
  was resolved.
\<close>

lemma disabled_summarizer_stand_in:
  "(\<exists>tools rep. extract_tools_from_futuretools None pd = Inr (tools, rep))
   \<and> (\<exists>f. extract_fields None c = Inr f
          \<and> v_summarized_description f =
              (if current_tool_has_description f \<and> 30 < length (split (v_description f))
               then ''Summarization pipeline not initialized. Please check installation and logs.''
               else if current_tool_has_description f then v_description f
               else ''N/A''))"
proof -
  have m: "summarize_text None t a b
             = ''Summarization pipeline not initialized. Please check installation and logs.''"
    for t a b
    by (simp add: summarize_text_def summarize_run_def)
  from summarized_description_rule [of None c] obtain f where
    "extract_fields None c = Inr f"
    "v_summarized_description f =
         (if current_tool_has_description f \<and> 30 < length (split (v_description f))
          then summarize_text None (PyStr (v_description f)) 50 15
          else if current_tool_has_description f then v_description f
          else ''N/A'')"
    by blast
  then have "extract_fields None c = Inr f
          \<and> v_summarized_description f =
              (if current_tool_has_description f \<and> 30 < length (split (v_description f))
               then ''Summarization pipeline not initialized. Please check installation and logs.''
               else if current_tool_has_description f then v_description f
               else ''N/A'')"
    by (simp only: m)
  with extract_total [of None pd] show ?thesis by blast
qed

lemma long_desc_fields:
  "extract_fields None long_desc_card =
     Inr \<lparr> v_name = ''Acme'', current_tool_has_name = True,
           v_website_link = ''N/A'', current_tool_has_website_link = False,
           v_futuretools_link_internal = ''https://www.futuretools.io/tool/acme'',
           current_tool_has_ft_link = True,
           v_description = long_text, current_tool_has_description = True,
           v_summarized_description =
             ''Summarization pipeline not initialized. Please check installation and logs.'' \<rparr>"
  by code_simp

lemma disabled_summarizer_stand_in_example:
  "\<exists>f. extract_fields None long_desc_card = Inr f
     \<and> current_tool_has_description f \<and> v_description f = long_text
     \<and> v_summarized_description f =
         ''Summarization pipeline not initialized. Please check installation and logs.''"
  using disabled_summarizer_stand_in [of None long_desc_card]
  by (simp add: long_desc_fields)

text \<open>
  Claim C7. The claim asks that with a disabled summarizer the
  \<open>summarized_description\<close> of a resolved description is the unsummarized text. With no
  pipeline, the card with the 31-word description is returned with the message
  "Summarization pipeline not initialized. Please check installation and logs." as its
  \<open>summarized_description\<close>: the extractor calls \<open>summarize_text\<close> without testing the
  pipeline and stores what it returns. The run itself does not fail.
\<close>

theorem disabled_summarizer_returns_message:
  "extract_tools_from_futuretools None (Some (page_of [long_desc_card])) =
     Inr ([\<lparr> name = ''Acme'', website_link = ''N/A'',
             futuretools_link = ''https://www.futuretools.io/tool/acme'',
             description = long_text,
             summarized_description =
               ''Summarization pipeline not initialized. Please check installation and logs.'' \<rparr>],
          Summary 1
            \<lparr> processed_tools_count = 1, missing_names_count = 0,
              missing_website_links_count = 1, missing_ft_links_count = 0,
              missing_descriptions_count = 0 \<rparr>)
   \<and> length (split long_text) = 31
   \<and> long_text \<noteq> ''Summarization pipeline not initialized. Please check installation and logs.''"
  by code_simp

section \<open>The counters\<close>

lemma fold_processed:
  "processed_tools_count (fold (update_counts n) fs c)
     = processed_tools_count c + length (filter accepted fs)"
  by (induction fs arbitrary: c) (auto simp: update_counts_def accepted_def)

lemma fold_missing_descriptions:
  "missing_descriptions_count (fold (update_counts n) fs c)
     = missing_descriptions_count c
       + length (filter (\<lambda>f. accepted f \<and> \<not> current_tool_has_description f) fs)"
  by (induction fs arbitrary: c) (auto simp: update_counts_def accepted_def bump_def)

lemma fold_missing_names:
  "0 < n \<Longrightarrow>
   missing_names_count (fold (update_counts n) fs c)
     = missing_names_count c + length (filter (\<lambda>f. \<not> current_tool_has_name f) fs)"
  by (induction fs arbitrary: c) (auto simp: update_counts_def accepted_def bump_def)

lemma fields_list:
  "list_all2 (\<lambda>k f. extract_fields smz k = Inr f) cs
     (map (\<lambda>k. projr (extract_fields smz k)) cs)"
  by (induction cs) (auto simp: extract_fields_Inr [symmetric])

text \<open>
  Claim C8, as the code has it. On a page with containers, let \<open>fs\<close> be the fields of
  the containers in order. The run returns the records of the accepted ones, and in
  the final tally: the accepted-record count is their number; the missing-description
  count is the number of accepted records without a resolved description. The counter
  variable for missing names is the number of containers without a resolved name. The
  number printed for missing names is that number when it is positive; otherwise it
  is 0 when no record was accepted, and the number of rejected containers when some
  record was accepted. So it can be positive when records are accepted. In one step,
  an accepted record leaves the missing-name counter alone and adds to the two link
  counters exactly its own missing links, and a container without a name changes only
  the missing-name counter.
\<close>

theorem tally_counts:
  "(d_soup d = Some soup \<and> discover_containers soup \<noteq> [] \<longrightarrow>
      (\<exists>fs c. list_all2 (\<lambda>k f. extract_fields smz k = Inr f) (discover_containers soup) fs
         \<and> extract_tools_from_futuretools smz (Some d)
             = Inr (map to_record (filter accepted fs), Summary (length fs) c)
         \<and> processed_tools_count c = length (filter accepted fs)
         \<and> missing_descriptions_count c
             = length (filter (\<lambda>f. accepted f \<and> \<not> current_tool_has_description f) fs)
         \<and> missing_names_count c = length (filter (\<lambda>f. \<not> current_tool_has_name f) fs)
         \<and> reported_missing_names (length fs) c
             = (if filter (\<lambda>f. \<not> current_tool_has_name f) fs \<noteq> []
                then length (filter (\<lambda>f. \<not> current_tool_has_name f) fs)
                else if filter accepted fs = [] then 0
                else length fs - length (filter accepted fs))))
   \<and> (accepted f \<longrightarrow>
         missing_names_count (update_counts n f c0) = missing_names_count c0
         \<and> missing_website_links_count (update_counts n f c0)
             = bump (\<not> current_tool_has_website_link f) (missing_website_links_count c0)
         \<and> missing_ft_links_count (update_counts n f c0)
             = bump (\<not> current_tool_has_ft_link f) (missing_ft_links_count c0)
         \<and> missing_descriptions_count (update_counts n f c0)
             = bump (\<not> current_tool_has_description f) (missing_descriptions_count c0))
   \<and> (\<not> current_tool_has_name f \<and> 0 < n \<longrightarrow>
         update_counts n f c0 = c0 \<lparr> missing_names_count := missing_names_count c0 + 1 \<rparr>)"
proof (intro conjI impI)
  assume a: "d_soup d = Some soup \<and> discover_containers soup \<noteq> []"
  define cs where "cs = discover_containers soup"
  define fs where "fs = map (\<lambda>k. projr (extract_fields smz k)) cs"
  define c where "c = fold (update_counts (length cs)) fs zero_counts"
  have n: "0 < length cs" "length fs = length cs" using a by (auto simp: cs_def fs_def)
  have r: "extract_tools_from_futuretools smz (Some d)
             = Inr (map to_record (filter accepted fs), Summary (length fs) c)"
    using a by (simp add: extract_on_soup cs_def fs_def c_def)
  have l: "list_all2 (\<lambda>k f. extract_fields smz k = Inr f) (discover_containers soup) fs"
    unfolding fs_def cs_def by (rule fields_list)
  have p: "processed_tools_count c = length (filter accepted fs)"
    by (simp add: c_def fold_processed zero_counts_def)
  have md: "missing_descriptions_count c
             = length (filter (\<lambda>f. accepted f \<and> \<not> current_tool_has_description f) fs)"
    by (simp add: c_def fold_missing_descriptions zero_counts_def)
  have mn: "missing_names_count c = length (filter (\<lambda>f. \<not> current_tool_has_name f) fs)"
    using n(1) by (simp add: c_def fold_missing_names zero_counts_def)
  have rn: "reported_missing_names (length fs) c
             = (if filter (\<lambda>f. \<not> current_tool_has_name f) fs \<noteq> []
                then length (filter (\<lambda>f. \<not> current_tool_has_name f) fs)
                else if filter accepted fs = [] then 0
                else length fs - length (filter accepted fs))"
    using n by (simp add: reported_missing_names_def p mn)
  from l r p md mn rn show
    "\<exists>fs c. list_all2 (\<lambda>k f. extract_fields smz k = Inr f) (discover_containers soup) fs
         \<and> extract_tools_from_futuretools smz (Some d)
             = Inr (map to_record (filter accepted fs), Summary (length fs) c)
         \<and> processed_tools_count c = length (filter accepted fs)
         \<and> missing_descriptions_count c
             = length (filter (\<lambda>f. accepted f \<and> \<not> current_tool_has_description f) fs)
         \<and> missing_names_count c = length (filter (\<lambda>f. \<not> current_tool_has_name f) fs)
         \<and> reported_missing_names (length fs) c
             = (if filter (\<lambda>f. \<not> current_tool_has_name f) fs \<noteq> []
                then length (filter (\<lambda>f. \<not> current_tool_has_name f) fs)
                else if filter accepted fs = [] then 0
                else length fs - length (filter accepted fs))"
    by blast
qed (auto simp: update_counts_def accepted_def bump_def)

lemma three_cards_containers:
  "discover_containers
     (Tag ''[document]'' None None
        [Tag ''body'' None None [full_card, linkless_card, nameless_card]])
   = [full_card, linkless_card, nameless_card]"
  by code_simp

lemma three_cards_run:
  "extract_tools_from_futuretools None
     (Some (page_of [full_card, linkless_card, nameless_card])) =
     Inr ([\<lparr> name = ''Acme'', website_link = ''https://acme.example.com'',
             futuretools_link = ''https://www.futuretools.io/tool/acme'',
             description = ''Writes code.'', summarized_description = ''Writes code.'' \<rparr>],
          Summary 3
            \<lparr> processed_tools_count = 1, missing_names_count = 1,
              missing_website_links_count = 1, missing_ft_links_count = 1,
              missing_descriptions_count = 0 \<rparr>)"
  by code_simp

lemma two_cards_containers:
  "discover_containers
     (Tag ''[document]'' None None [Tag ''body'' None None [full_card, linkless_card]])
   = [full_card, linkless_card]"
  by code_simp

lemma two_cards_run:
  "extract_tools_from_futuretools None (Some (page_of [full_card, linkless_card])) =
     Inr ([\<lparr> name = ''Acme'', website_link = ''https://acme.example.com'',
             futuretools_link = ''https://www.futuretools.io/tool/acme'',
             description = ''Writes code.'', summarized_description = ''Writes code.'' \<rparr>],
          Summary 2
            \<lparr> processed_tools_count = 1, missing_names_count = 0,
              missing_website_links_count = 1, missing_ft_links_count = 1,
              missing_descriptions_count = 0 \<rparr>)"
  by code_simp

lemma full_fields:
  "extract_fields None full_card =
     Inr \<lparr> v_name = ''Acme'', current_tool_has_name = True,
           v_website_link = ''https://acme.example.com'', current_tool_has_website_link = True,
           v_futuretools_link_internal = ''https://www.futuretools.io/tool/acme'',
           current_tool_has_ft_link = True,
           v_description = ''Writes code.'', current_tool_has_description = True,
           v_summarized_description = ''Writes code.'' \<rparr>"
  by code_simp

lemma nameless_fields:
  "extract_fields None nameless_card =
     Inr \<lparr> v_name = ''N/A'', current_tool_has_name = False,
           v_website_link = ''N/A'', current_tool_has_website_link = False,
           v_futuretools_link_internal = ''N/A'', current_tool_has_ft_link = False,
           v_description = ''N/A'', current_tool_has_description = False,
           v_summarized_description = ''N/A'' \<rparr>"
  by code_simp

theorem tally_counts_witness:
  "(\<exists>fs c. extract_tools_from_futuretools None
            (Some (page_of [full_card, linkless_card, nameless_card]))
          = Inr (map to_record (filter accepted fs), Summary (length fs) c)
     \<and> length fs = 3
     \<and> processed_tools_count c = 1
     \<and> missing_names_count c = 1
     \<and> reported_missing_names (length fs) c = 1
     \<and> missing_descriptions_count c = 0
     \<and> length (filter accepted fs) = 1
     \<and> length (filter (\<lambda>f. \<not> current_tool_has_name f) fs) = 1)
   \<and> (\<exists>fs c. extract_tools_from_futuretools None (Some (page_of [full_card, linkless_card]))
          = Inr (map to_record (filter accepted fs), Summary (length fs) c)
     \<and> length fs = 2
     \<and> missing_names_count c = 0
     \<and> reported_missing_names (length fs) c = 1
     \<and> length (filter accepted fs) = 1
     \<and> filter (\<lambda>f. \<not> current_tool_has_name f) fs = [])
   \<and> missing_names_count
        (update_counts 3 (projr (extract_fields None full_card)) zero_counts) = 0
   \<and> missing_website_links_count
        (update_counts 3 (projr (extract_fields None full_card)) zero_counts) = 0
   \<and> update_counts 3 (projr (extract_fields None nameless_card)) zero_counts
       = zero_counts \<lparr> missing_names_count := 1 \<rparr>"
proof -
  have a: "d_soup (page_of [full_card, linkless_card, nameless_card])
             = Some (Tag ''[document]'' None None
                       [Tag ''body'' None None [full_card, linkless_card, nameless_card]])
           \<and> discover_containers
                (Tag ''[document]'' None None
                   [Tag ''body'' None None [full_card, linkless_card, nameless_card]]) \<noteq> []"
    by (simp add: page_of_def three_cards_containers)
  from tally_counts [of "page_of [full_card, linkless_card, nameless_card]"
         "Tag ''[document]'' None None
            [Tag ''body'' None None [full_card, linkless_card, nameless_card]]" None] a
  obtain fs c where
    r: "extract_tools_from_futuretools None
          (Some (page_of [full_card, linkless_card, nameless_card]))
        = Inr (map to_record (filter accepted fs), Summary (length fs) c)"
    and p: "processed_tools_count c = length (filter accepted fs)"
    and md: "missing_descriptions_count c
             = length (filter (\<lambda>f. accepted f \<and> \<not> current_tool_has_description f) fs)"
    and mn: "missing_names_count c = length (filter (\<lambda>f. \<not> current_tool_has_name f) fs)"
    by blast
  from r have e: "length fs = 3"
      "c = \<lparr> processed_tools_count = 1, missing_names_count = 1,
              missing_website_links_count = 1, missing_ft_links_count = 1,
              missing_descriptions_count = 0 \<rparr>"
    by (simp_all add: three_cards_run)
  from r e p md mn have run:
    "\<exists>fs c. extract_tools_from_futuretools None
            (Some (page_of [full_card, linkless_card, nameless_card]))
          = Inr (map to_record (filter accepted fs), Summary (length fs) c)
     \<and> length fs = 3
     \<and> processed_tools_count c = 1
     \<and> missing_names_count c = 1
     \<and> reported_missing_names (length fs) c = 1
     \<and> missing_descriptions_count c = 0
     \<and> length (filter accepted fs) = 1
     \<and> length (filter (\<lambda>f. \<not> current_tool_has_name f) fs) = 1"
    by (intro exI [of _ fs] exI [of _ c]) (simp add: reported_missing_names_def)
  have a2: "d_soup (page_of [full_card, linkless_card])
             = Some (Tag ''[document]'' None None
                       [Tag ''body'' None None [full_card, linkless_card]])
           \<and> discover_containers
                (Tag ''[document]'' None None
                   [Tag ''body'' None None [full_card, linkless_card]]) \<noteq> []"
    by (simp add: page_of_def two_cards_containers)
  from tally_counts [of "page_of [full_card, linkless_card]"
         "Tag ''[document]'' None None [Tag ''body'' None None [full_card, linkless_card]]"
         None] a2
  obtain fs2 c2 where
    r2: "extract_tools_from_futuretools None (Some (page_of [full_card, linkless_card]))
        = Inr (map to_record (filter accepted fs2), Summary (length fs2) c2)"
    and p2: "processed_tools_count c2 = length (filter accepted fs2)"
    and mn2: "missing_names_count c2
              = length (filter (\<lambda>f. \<not> current_tool_has_name f) fs2)"
    by blast
  from r2 have e2: "length fs2 = 2"
      "c2 = \<lparr> processed_tools_count = 1, missing_names_count = 0,
              missing_website_links_count = 1, missing_ft_links_count = 1,
              missing_descriptions_count = 0 \<rparr>"
    by (simp_all add: two_cards_run)
  have la2: "length (filter accepted fs2) = 1" using p2 e2(2) by simp
  have fn2: "filter (\<lambda>f. \<not> current_tool_has_name f) fs2 = []" using mn2 e2(2) by simp
  have mz2: "missing_names_count c2 = 0" by (simp add: e2(2))
  have rp2: "reported_missing_names (length fs2) c2 = 1"
    by (simp add: e2 reported_missing_names_def)
  from r2 e2(1) la2 fn2 mz2 rp2 have run2:
    "\<exists>fs c. extract_tools_from_futuretools None (Some (page_of [full_card, linkless_card]))
          = Inr (map to_record (filter accepted fs), Summary (length fs) c)
     \<and> length fs = 2
     \<and> missing_names_count c = 0
     \<and> reported_missing_names (length fs) c = 1
     \<and> length (filter accepted fs) = 1
     \<and> filter (\<lambda>f. \<not> current_tool_has_name f) fs = []"
    by blast
  have steps:
    "missing_names_count
        (update_counts 3 (projr (extract_fields None full_card)) zero_counts) = 0
     \<and> missing_website_links_count
        (update_counts 3 (projr (extract_fields None full_card)) zero_counts) = 0
     \<and> update_counts 3 (projr (extract_fields None nameless_card)) zero_counts
       = zero_counts \<lparr> missing_names_count := 1 \<rparr>"
    using tally_counts [of "page_of [full_card, linkless_card, nameless_card]"
            "Tag ''[document]'' None None
               [Tag ''body'' None None [full_card, linkless_card, nameless_card]]" None
            "projr (extract_fields None full_card)" 3 zero_counts]
          tally_counts [of "page_of [full_card, linkless_card, nameless_card]"
            "Tag ''[document]'' None None
               [Tag ''body'' None None [full_card, linkless_card, nameless_card]]" None
            "projr (extract_fields None nameless_card)" 3 zero_counts]
    by (simp add: full_fields nameless_fields accepted_def bump_def zero_counts_def)
  from run run2 steps show ?thesis by blast
qed

text \<open>
  Three containers: one accepted with every field, one with a name and no link, one
  without a name. One record is returned and it misses nothing, yet the counters for
  a missing website link and a missing futuretools link are 1 (from the rejected
  container that has a name), and the missing-name counter and the number printed
  for it are 1 although a record was accepted.
\<close>

theorem rejected_containers_are_counted:
  "extract_tools_from_futuretools None
     (Some (page_of [full_card, linkless_card, nameless_card])) =
     Inr ([\<lparr> name = ''Acme'', website_link = ''https://acme.example.com'',
             futuretools_link = ''https://www.futuretools.io/tool/acme'',
             description = ''Writes code.'', summarized_description = ''Writes code.'' \<rparr>],
          Summary 3
            \<lparr> processed_tools_count = 1, missing_names_count = 1,
              missing_website_links_count = 1, missing_ft_links_count = 1,
              missing_descriptions_count = 0 \<rparr>)
   \<and> reported_missing_names 3
        \<lparr> processed_tools_count = 1, missing_names_count = 1,
          missing_website_links_count = 1, missing_ft_links_count = 1,
          missing_descriptions_count = 0 \<rparr> = 1"
  by code_simp

section \<open>The presenters on empty collections\<close>

text \<open>The list format names an empty link list and an empty video list.\<close>

lemma list_format_names_empty_collections:
  "\<not> empty_dict d \<Longrightarrow> get_list (d_links d) = [] \<Longrightarrow> get_list (d_youtube_videos d) = [] \<Longrightarrow>
   format_data_as_list (PageDict d) ''generic_website'' =
     Inr (join ''\<newline>''
            [''--- Website Content (List Format) ---'', ''\<newline>No hyperlinks extracted.'',
             ''\<newline>No YouTube videos identified.''])"
  by (simp add: format_data_as_list_def website_list_lines_def)

text \<open>The paragraph format on the same data: the header and the text paragraph, and
  nothing about links or videos.\<close>

lemma paragraph_format_omits_empty_collections:
  "\<not> empty_dict d \<Longrightarrow> get_list (d_links d) = [] \<Longrightarrow> get_list (d_youtube_videos d) = [] \<Longrightarrow>
   format_data_as_paragraphs smz (PageDict d) ''generic_website'' =
     Inr (join ''\<newline>\<newline>''
            [''--- Website Content (Paragraph Format) ---'', summary_paragraph smz d])"
  by (simp add: format_data_as_paragraphs_def website_paragraphs_def)

text \<open>
  Claim C9. The claim asks both presenters to print an explicit line for an empty
  link collection and for an empty video collection. On a page dictionary with text,
  no links and no videos, the list format prints "No hyperlinks extracted." and
  "No YouTube videos identified."; the paragraph format prints the header and the text
  paragraph only, with no line about links or videos.
\<close>

theorem paragraphs_silent_on_empty_collections:
  "format_data_as_paragraphs None (PageDict bare_page) ''generic_website'' =
     Inr ''--- Website Content (Paragraph Format) ---\<newline>\<newline>Website Summary:\<newline>(Summarizer not available or text too short). Full text snippet:\<newline>Hello world...''
   \<and> format_data_as_paragraphs (Some echo_model) (PageDict bare_page) ''generic_website'' =
     Inr ''--- Website Content (Paragraph Format) ---\<newline>\<newline>Website Summary:\<newline>short''
   \<and> format_data_as_list (PageDict bare_page) ''generic_website'' =
     Inr ''--- Website Content (List Format) ---\<newline>\<newline>No hyperlinks extracted.\<newline>\<newline>No YouTube videos identified.''"
  by code_simp

end
